theory Spec2Isabelle
  imports Main "HOL-Library.Signed_Division"
begin

section \<open>Values of the Go program\<close>

text \<open>
  A Go string is a sequence of bytes; \<open>len\<close> counts bytes and \<open>loc[i]\<close> reads one.
  A \<^typ>\<open>char\<close> is one byte, compared through its code.
\<close>

definition byte :: "char \<Rightarrow> nat" where
  "byte c = of_char c"

text \<open>
  Go's \<open>error\<close> values. \<open>EOF\<close> is \<open>io.EOF\<close>, which the ingestion loops compare against;
  \<open>ErrFieldCount\<close> is \<open>csv.ErrFieldCount\<close>, \<open>ErrNil\<close> is \<open>redis.ErrNil\<close>; every other error
  is \<open>Error msg\<close>, with the constant part of its message.
\<close>

datatype error = EOF | ErrFieldCount | ErrNil | Error string

text \<open>
  Go's \<open>int\<close> and \<open>int64\<close> (64 bits on the platforms the service is built for) are integers
  in the range \<open>int64\<close>; arithmetic that can leave the range wraps around, \<open>wrap64\<close>.
  Go's \<open>/\<close> on integers truncates towards zero: it is \<open>sdiv\<close>.
\<close>

definition wrap64 :: "int \<Rightarrow> int" where
  "wrap64 x = signed_take_bit 63 x"

definition int64 :: "int \<Rightarrow> bool" where
  "int64 x = (- (2 ^ 63) \<le> x \<and> x < 2 ^ 63)"

text \<open>
  A \<open>time.Time\<close> is an instant, counted in nanoseconds since the Unix epoch; \<open>Unix\<close> is
  its method \<open>Unix()\<close>, the number of whole seconds.
\<close>

type_synonym Time = int

definition Unix :: "Time \<Rightarrow> int" where
  "Unix t = t div 1000000000"

section \<open>Package util\<close>

subsection \<open>The location validator\<close>

text \<open>
  The loop body of \<open>ValidateICAOLocation\<close> rejects a byte \<open>c\<close> when
  \<open>(c < 'A' || c > 'Z') && (c < '0' || c > '9')\<close>; \<open>upperOrDigit\<close> is the negation of
  that test.
\<close>

definition upperOrDigit :: "char \<Rightarrow> bool" where
  "upperOrDigit c =
     (\<not> ((byte c < byte CHR ''A'' \<or> byte c > byte CHR ''Z'') \<and>
         (byte c < byte CHR ''0'' \<or> byte c > byte CHR ''9'')))"

text \<open>
  \<open>ValidateICAOLocation\<close>: the length test, then the test
  \<open>loc[0] < 'A' && loc[1] > 'Z'\<close> exactly as the source writes it, then the loop over the
  indices 1, 2 and 3.
\<close>

definition ValidateICAOLocation :: "string \<Rightarrow> bool" where
  "ValidateICAOLocation loc =
     (if length loc \<noteq> 4 then False
      else if byte (loc ! 0) < byte CHR ''A'' \<and> byte (loc ! 1) > byte CHR ''Z'' then False
      else list_all upperOrDigit (drop 1 loc))"

text \<open>The pattern of the function's documentation, \<open>[A-Z]([A-Z0-9]){3}\<close>.\<close>

definition upper :: "char \<Rightarrow> bool" where
  "upper c = (byte CHR ''A'' \<le> byte c \<and> byte c \<le> byte CHR ''Z'')"

definition icao_pattern :: "string \<Rightarrow> bool" where
  "icao_pattern loc = (length loc = 4 \<and> upper (loc ! 0) \<and> list_all upperOrDigit (drop 1 loc))"

subsection \<open>The CSV reader\<close>

text \<open>
  \<open>encoding/csv\<close> is a library: its tokenizer is not modelled. The input of a
  \<open>csv.Reader\<close> is the list of its lines already split into fields, \<open>Fields\<close>, or not
  parsable, \<open>Malformed\<close>. \<open>Read\<close> is \<open>(*Reader).Read\<close> with its field-count rule: a
  positive \<open>FieldsPerRecord\<close> is required of every record (the record is returned with
  \<open>ErrFieldCount\<close> otherwise), zero takes the width of the first record, a negative
  value disables the check.
\<close>

datatype line = Fields "string list" | Malformed

record Reader =
  lines :: "line list"
  FieldsPerRecord :: int

definition NewReader :: "line list \<Rightarrow> Reader" where
  "NewReader src = \<lparr>lines = src, FieldsPerRecord = 0\<rparr>"

definition Read :: "Reader \<Rightarrow> (string list \<times> error option) \<times> Reader" where
  "Read r =
     (case lines r of
        [] \<Rightarrow> (([], Some EOF), r)
      | Malformed # rest \<Rightarrow> (([], Some (Error ''parse error'')), r\<lparr>lines := rest\<rparr>)
      | Fields record # rest \<Rightarrow>
          (if FieldsPerRecord r > 0 then
             (if int (length record) \<noteq> FieldsPerRecord r
              then ((record, Some ErrFieldCount), r\<lparr>lines := rest\<rparr>)
              else ((record, None), r\<lparr>lines := rest\<rparr>))
           else if FieldsPerRecord r = 0 then
             ((record, None), r\<lparr>lines := rest, FieldsPerRecord := int (length record)\<rparr>)
           else ((record, None), r\<lparr>lines := rest\<rparr>)))"

text \<open>A successful \<open>Read\<close> consumes a line.\<close>

lemma Read_shrinks:
  "Read src = ((record, None), src') \<Longrightarrow> length (lines src') < length (lines src)"
  by (auto simp: Read_def split: list.splits line.splits if_splits)

subsection \<open>The CSV header resolver\<close>

text \<open>
  The two nested loops of \<open>ParseCsvHeader\<close>: for every field \<open>s\<close> of the record at index
  \<open>i\<close>, and every requested name \<open>f\<close> at index \<open>j\<close>, \<open>result[j] = i\<close> when \<open>s == f\<close> and
  \<open>result[j] == -1\<close>.
\<close>

definition matchField :: "string list \<Rightarrow> nat \<Rightarrow> string \<Rightarrow> int list \<Rightarrow> int list" where
  "matchField fieldNames i s result =
     foldl (\<lambda>res j. if s = fieldNames ! j \<and> res ! j = - 1 then res[j := int i] else res)
       result [0..<length fieldNames]"

definition matchRecord :: "string list \<Rightarrow> string list \<Rightarrow> int list \<Rightarrow> int list" where
  "matchRecord fieldNames record result =
     foldl (\<lambda>res i. matchField fieldNames i (record ! i) res) result [0..<length record]"

text \<open>
  The \<open>for\<close> loop that reads records until one has more than one field. It ends: every
  successful \<open>Read\<close> consumes a line.
\<close>

function headerLoop :: "string list \<Rightarrow> int list \<Rightarrow> Reader \<Rightarrow> (int list \<times> error option) \<times> Reader" where
  "headerLoop fieldNames result src =
     (case Read src of
        ((record, Some err), src') \<Rightarrow> ((result, Some (Error ''Error parsing CSV header'')), src')
      | ((record, None), src') \<Rightarrow>
          if length record > 1
          then ((matchRecord fieldNames record result, None),
                src'\<lparr>FieldsPerRecord := int (length record)\<rparr>)
          else headerLoop fieldNames result src')"
  by pat_completeness auto

termination headerLoop
  by (relation "measure (\<lambda>(f, res, src). length (lines src))")
     (auto dest: Read_shrinks [OF sym])

declare headerLoop.simps [simp del]

definition ParseCsvHeader :: "Reader \<Rightarrow> string list \<Rightarrow> (int list \<times> error option) \<times> Reader" where
  "ParseCsvHeader src fieldNames =
     (if length fieldNames < 1 then (([], Some (Error ''No field names specified'')), src)
      else headerLoop fieldNames (replicate (length fieldNames) (- 1))
             (src\<lparr>FieldsPerRecord := - 1\<rparr>))"

text \<open>
  The index the contract of the resolver promises for a name: the position of its first
  occurrence in the header row, or \<open>-1\<close>.
\<close>

fun indexFrom :: "nat \<Rightarrow> string list \<Rightarrow> string \<Rightarrow> int" where
  "indexFrom i [] f = - 1"
| "indexFrom i (s # ss) f = (if s = f then int i else indexFrom (Suc i) ss f)"

definition firstIndex :: "string list \<Rightarrow> string \<Rightarrow> int" where
  "firstIndex record f = indexFrom 0 record f"

subsection \<open>The TTL calculator\<close>

text \<open>
  \<open>ExpireSeconds\<close>. \<open>time.Parse(time.RFC3339, _)\<close> is a parameter, \<open>parseRFC3339\<close>, and so
  is the clock reading \<open>time.Now()\<close>. On a parse error the source returns its argument
  \<open>expire\<close> together with the error.
\<close>

definition ExpireSeconds :: "(string \<Rightarrow> error + Time) \<Rightarrow> Time \<Rightarrow> string \<Rightarrow> int \<Rightarrow> int \<times> error option" where
  "ExpireSeconds parseRFC3339 now timeStr expire =
     (case parseRFC3339 timeStr of
        Inl err \<Rightarrow> (expire, Some err)
      | Inr tm \<Rightarrow> (wrap64 (wrap64 (Unix tm + expire) - Unix now), None))"

subsection \<open>The conditional fetch\<close>

text \<open>
  \<open>GetFromURL\<close>. The HTTP client is a parameter: \<open>httpHead url\<close> is the transport error
  or the status code and the values of the \<open>Last-Modified\<close> header of the HEAD response,
  \<open>httpGet url\<close> the transport error or the status code and the body of the GET response;
  \<open>parseRFC1123\<close> is \<open>time.Parse(time.RFC1123, _)\<close>. \<open>lastModTime.Before(lastUpdated)\<close> is
  \<open>lastModTime < lastUpdated\<close>.
\<close>

definition StatusOK :: nat where "StatusOK = 200"

definition GetFromURL ::
  "(string \<Rightarrow> error + nat \<times> string list) \<Rightarrow> (string \<Rightarrow> error + nat \<times> 'body) \<Rightarrow>
   (string \<Rightarrow> error + Time) \<Rightarrow> string \<Rightarrow> Time \<Rightarrow> 'body option \<times> error option" where
  "GetFromURL httpHead httpGet parseRFC1123 url lastUpdated =
     (case httpHead url of
        Inl err \<Rightarrow> (None, Some (Error ''HEAD request error''))
      | Inr (headStatus, lastModified) \<Rightarrow>
          if headStatus \<noteq> StatusOK then (None, Some (Error ''HEAD request resulted in code''))
          else
            (case (if length lastModified = 1
                   then (case parseRFC1123 (lastModified ! 0) of
                           Inl err \<Rightarrow> Some (None, Some (Error ''Cannot parse Last-Modified''))
                         | Inr lastModTime \<Rightarrow>
                             if lastModTime < lastUpdated then Some (None, None) else None)
                   else None) of
               Some early \<Rightarrow> early
             | None \<Rightarrow>
                 (case httpGet url of
                    Inl err \<Rightarrow> (None, Some err)
                  | Inr (status, body) \<Rightarrow>
                      if status \<noteq> StatusOK then (None, Some (Error ''Request resulted in code''))
                      else (Some body, None))))"

section \<open>Library functions the program calls\<close>

text \<open>
  \<open>strconv.Atoi\<close>, by its contract: an optional sign, then one or more decimal digits,
  and a value in the range of \<open>int\<close>; a syntax error or a range error otherwise.
\<close>

definition digit :: "char \<Rightarrow> bool" where
  "digit c = (byte CHR ''0'' \<le> byte c \<and> byte c \<le> byte CHR ''9'')"

definition Atoi :: "string \<Rightarrow> error + int" where
  "Atoi s =
     (let ds = (case s of [] \<Rightarrow> [] | c # cs \<Rightarrow> if c = CHR ''-'' \<or> c = CHR ''+'' then cs else s);
          neg = (case s of [] \<Rightarrow> False | c # cs \<Rightarrow> c = CHR ''-'')
      in if ds = [] \<or> \<not> list_all digit ds then Inl (Error ''strconv.Atoi: invalid syntax'')
         else
           (let n = foldl (\<lambda>n c. n * 10 + (int (byte c) - int (byte CHR ''0''))) 0 ds;
                v = (if neg then - n else n)
            in if int64 v then Inr v else Inl (Error ''strconv.Atoi: value out of range'')))"

text \<open>
  The decimal text of an integer, as \<open>strconv.Itoa\<close> and the Redis client write it.
\<close>

function natStr :: "nat \<Rightarrow> string" where
  "natStr n = (if n < 10 then [char_of (48 + n)] else natStr (n div 10) @ [char_of (48 + n mod 10)])"
  by pat_completeness auto
termination natStr
  by (relation "measure id") auto

declare natStr.simps [simp del]

definition Itoa :: "int \<Rightarrow> string" where
  "Itoa i = (if i < 0 then CHR ''-'' # natStr (nat (- i)) else natStr (nat i))"


section \<open>Package database\<close>

text \<open>
  The struct \<open>DataICAOLocation\<close>. A \<open>float64\<close> is a value of the type parameter \<open>'f\<close>:
  the program only parses, stores and prints the coordinates, through library functions
  that are parameters of the model (\<open>ParseFloat\<close>, \<open>FormatFloat\<close>, \<open>MarshalIndent\<close>).
  \<open>zeroLocation\<close> is Go's zero value of the struct, \<open>var l DataICAOLocation\<close>; every field
  carries the tag \<open>omitempty\<close>, so a field at its zero value is left out of the JSON.
\<close>

record 'f DataICAOLocation =
  Location :: string
  Metar :: string
  Taf :: string
  Name :: string
  City :: string
  CountryCode :: string
  Latitude :: 'f
  Longitude :: 'f
  AltitudeMeters :: int
  AltitudeFeet :: int

definition zeroLocation :: "'f::zero DataICAOLocation" where
  "zeroLocation =
     \<lparr>Location = '''', Metar = '''', Taf = '''', Name = '''', City = '''', CountryCode = '''',
      Latitude = 0, Longitude = 0, AltitudeMeters = 0, AltitudeFeet = 0\<rparr>"

subsection \<open>The Redis connection\<close>

text \<open>
  A reply of the Redis client (redigo): an integer, a bulk string, nil, a status line, an
  error inside an array, or an array. An argument of \<open>conn.Do\<close> is a string, an integer
  or a float. The connection itself is a parameter \<open>Do\<close> of every database function:
  \<open>Do cmd args st\<close> is the error or the reply of the command, and the state of the
  server after it. \<open>result\<close> adds the outcome of a Go panic to a returned value or error.
\<close>

datatype reply = RInt int | RBulk string | RNil | RStatus string | RError string | RArray "reply list"

datatype 'f arg = AStr string | AInt int | AFloat 'f

type_synonym ('f, 'st) conn = "string \<Rightarrow> 'f arg list \<Rightarrow> 'st \<Rightarrow> (error + reply) \<times> 'st"

datatype 'a result = Ok 'a | Err error | Panic

text \<open>
  The reply helpers \<open>redis.Bool\<close>, \<open>redis.Strings\<close> and \<open>redis.StringMap\<close>, by their
  contracts. \<open>redis.Strings\<close> maps a nil element (a missing key of MGET) to the empty
  string. A Go \<open>map[string]string\<close> is the list of its bindings in the order they were
  made; \<open>lookup\<close> is \<open>m[k]\<close>, the last binding of the key or the empty string, and the
  map is empty exactly when the list is.
\<close>

definition ParseBool :: "string \<Rightarrow> bool \<times> error option" where
  "ParseBool str =
     (if str \<in> set [''1'', ''t'', ''T'', ''TRUE'', ''true'', ''True''] then (True, None)
      else if str \<in> set [''0'', ''f'', ''F'', ''FALSE'', ''false'', ''False''] then (False, None)
      else (False, Some (Error ''strconv.ParseBool: invalid syntax'')))"

fun redisBool :: "error + reply \<Rightarrow> bool \<times> error option" where
  "redisBool (Inl err) = (False, Some err)"
| "redisBool (Inr (RInt n)) = (n \<noteq> 0, None)"
| "redisBool (Inr (RBulk b)) = ParseBool b"
| "redisBool (Inr RNil) = (False, Some ErrNil)"
| "redisBool (Inr (RError m)) = (False, Some (Error m))"
| "redisBool (Inr _) = (False, Some (Error ''redigo: unexpected type for Bool''))"

fun stringsElems :: "reply list \<Rightarrow> error + string list" where
  "stringsElems [] = Inr []"
| "stringsElems (RNil # rs) = (case stringsElems rs of Inl e \<Rightarrow> Inl e | Inr ss \<Rightarrow> Inr ('''' # ss))"
| "stringsElems (RBulk b # rs) = (case stringsElems rs of Inl e \<Rightarrow> Inl e | Inr ss \<Rightarrow> Inr (b # ss))"
| "stringsElems (RError m # rs) = Inl (Error m)"
| "stringsElems (_ # rs) = Inl (Error ''redigo: unexpected element type for Strings'')"

fun redisStrings :: "error + reply \<Rightarrow> error + string list" where
  "redisStrings (Inl err) = Inl err"
| "redisStrings (Inr (RArray rs)) = stringsElems rs"
| "redisStrings (Inr RNil) = Inl ErrNil"
| "redisStrings (Inr (RError m)) = Inl (Error m)"
| "redisStrings (Inr _) = Inl (Error ''redigo: unexpected type for Strings'')"

type_synonym gomap = "(string \<times> string) list"

definition lookup :: "gomap \<Rightarrow> string \<Rightarrow> string" where
  "lookup m k = (case map_of (rev m) k of None \<Rightarrow> '''' | Some v \<Rightarrow> v)"

fun stringMapPairs :: "reply list \<Rightarrow> error + gomap" where
  "stringMapPairs [] = Inr []"
| "stringMapPairs (RBulk k # RBulk v # rs) =
     (case stringMapPairs rs of Inl e \<Rightarrow> Inl e | Inr m \<Rightarrow> Inr ((k, v) # m))"
| "stringMapPairs _ = Inl (Error ''redigo: StringMap key not a bulk string value'')"

fun redisStringMap :: "error + reply \<Rightarrow> error + gomap" where
  "redisStringMap (Inl err) = Inl err"
| "redisStringMap (Inr (RArray rs)) =
     (if odd (length rs) then Inl (Error ''redigo: StringMap expects even number of values result'')
      else stringMapPairs rs)"
| "redisStringMap (Inr RNil) = Inl ErrNil"
| "redisStringMap (Inr (RError m)) = Inl (Error m)"
| "redisStringMap (Inr _) = Inl (Error ''redigo: unexpected type for Values'')"

subsection \<open>DbRedis\<close>

definition DbRedisICAOPrefixLocation :: string where "DbRedisICAOPrefixLocation = ''wx:icao:loc:''"
definition DbRedisICAOPrefixMetar :: string where "DbRedisICAOPrefixMetar = ''wx:icao:metar:''"
definition DbRedisICAOPrefixTaf :: string where "DbRedisICAOPrefixTaf = ''wx:icao:taf:''"
definition DbRedisICAOLocFieldName :: string where "DbRedisICAOLocFieldName = ''name''"
definition DbRedisICAOLocFieldCity :: string where "DbRedisICAOLocFieldCity = ''city''"
definition DbRedisICAOLocFieldCountryCode :: string where "DbRedisICAOLocFieldCountryCode = ''country''"
definition DbRedisICAOLocFieldLatitude :: string where "DbRedisICAOLocFieldLatitude = ''lat''"
definition DbRedisICAOLocFieldLongitude :: string where "DbRedisICAOLocFieldLongitude = ''lon''"
definition DbRedisICAOLocFieldAltitudeFeet :: string where "DbRedisICAOLocFieldAltitudeFeet = ''alt_ft''"

text \<open>
  \<open>makeLocationData\<close>. The altitude in meters is \<open>int(alt * 3048 / 10000)\<close> on Go's
  \<open>int\<close>: the product wraps around, the quotient truncates towards zero.
\<close>

definition makeLocationData ::
  "(string \<Rightarrow> error + 'f) \<Rightarrow> string \<Rightarrow> gomap \<Rightarrow> error + ('f::zero) DataICAOLocation" where
  "makeLocationData ParseFloat loc s =
     (case Atoi (lookup s DbRedisICAOLocFieldAltitudeFeet) of
        Inl err \<Rightarrow> Inl err
      | Inr alt \<Rightarrow>
          (case ParseFloat (lookup s DbRedisICAOLocFieldLatitude) of
             Inl err \<Rightarrow> Inl err
           | Inr lat \<Rightarrow>
               (case ParseFloat (lookup s DbRedisICAOLocFieldLongitude) of
                  Inl err \<Rightarrow> Inl err
                | Inr lon \<Rightarrow>
                    Inr (zeroLocation
                      \<lparr>Location := loc,
                       Name := lookup s DbRedisICAOLocFieldName,
                       City := lookup s DbRedisICAOLocFieldCity,
                       CountryCode := lookup s DbRedisICAOLocFieldCountryCode,
                       AltitudeFeet := alt,
                       AltitudeMeters := wrap64 (alt * 3048) sdiv 10000,
                       Latitude := lat,
                       Longitude := lon\<rparr>))))"

text \<open>
  \<open>getMetarStrs\<close> and \<open>getTafStrs\<close>: one MGET over the prefixed keys.
\<close>

definition getMetarStrs :: "('f, 'st) conn \<Rightarrow> string list \<Rightarrow> 'st \<Rightarrow> (error + string list) \<times> 'st" where
  "getMetarStrs Do loc st =
     (let (r, st') = Do ''MGET'' (map (\<lambda>l. AStr (DbRedisICAOPrefixMetar @ l)) loc) st
      in (redisStrings r, st'))"

definition getTafStrs :: "('f, 'st) conn \<Rightarrow> string list \<Rightarrow> 'st \<Rightarrow> (error + string list) \<times> 'st" where
  "getTafStrs Do loc st =
     (let (r, st') = Do ''MGET'' (map (\<lambda>l. AStr (DbRedisICAOPrefixTaf @ l)) loc) st
      in (redisStrings r, st'))"

text \<open>
  \<open>GetICAOLocationData\<close>: the two batch reads, then the loop over the locations with one
  HGETALL each. A location whose hash is empty is left out. The reads \<open>metars[i]\<close> and
  \<open>tafs[i]\<close> panic when the index is out of range.
\<close>

fun locationLoop ::
  "('f, 'st) conn \<Rightarrow> (string \<Rightarrow> error + 'f) \<Rightarrow> string list \<Rightarrow> string list \<Rightarrow> nat \<Rightarrow> string list \<Rightarrow>
   ('f::zero) DataICAOLocation list \<Rightarrow> 'st \<Rightarrow> 'f DataICAOLocation list result \<times> 'st" where
  "locationLoop Do ParseFloat metars tafs i [] result st = (Ok result, st)"
| "locationLoop Do ParseFloat metars tafs i (l # rest) result st =
     (let (r, st') = Do ''HGETALL'' [AStr (DbRedisICAOPrefixLocation @ l)] st
      in case redisStringMap r of
           Inl err \<Rightarrow> (Err err, st')
         | Inr v \<Rightarrow>
             if length v > 0 then
               (case makeLocationData ParseFloat l v of
                  Inl err \<Rightarrow> (Err err, st')
                | Inr ld \<Rightarrow>
                    if i < length metars \<and> i < length tafs
                    then locationLoop Do ParseFloat metars tafs (Suc i) rest
                           (result @ [ld\<lparr>Metar := metars ! i, Taf := tafs ! i\<rparr>]) st'
                    else (Panic, st'))
             else locationLoop Do ParseFloat metars tafs (Suc i) rest result st')"

definition GetICAOLocationData ::
  "('f, 'st) conn \<Rightarrow> (string \<Rightarrow> error + 'f) \<Rightarrow> string list \<Rightarrow> 'st \<Rightarrow>
   ('f::zero) DataICAOLocation list result \<times> 'st" where
  "GetICAOLocationData Do ParseFloat loc st =
     (case getMetarStrs Do loc st of
        (Inl err, st1) \<Rightarrow> (Err err, st1)
      | (Inr metars, st1) \<Rightarrow>
          (case getTafStrs Do loc st1 of
             (Inl err, st2) \<Rightarrow> (Err err, st2)
           | (Inr tafs, st2) \<Rightarrow> locationLoop Do ParseFloat metars tafs 0 loc [] st2))"

text \<open>
  \<open>GetMETARs\<close> and \<open>GetTAFs\<close>: a record for every non-empty report; \<open>loc[i]\<close> panics out
  of range.
\<close>

fun metarLoop :: "string list \<Rightarrow> nat \<Rightarrow> string list \<Rightarrow> ('f::zero) DataICAOLocation list \<Rightarrow>
    'f DataICAOLocation list result" where
  "metarLoop loc i [] result = Ok result"
| "metarLoop loc i (metar # rest) result =
     (if length metar > 0 then
        (if i < length loc
         then metarLoop loc (Suc i) rest (result @ [zeroLocation\<lparr>Location := loc ! i, Metar := metar\<rparr>])
         else Panic)
      else metarLoop loc (Suc i) rest result)"

definition GetMETARs :: "('f, 'st) conn \<Rightarrow> string list \<Rightarrow> 'st \<Rightarrow> ('f::zero) DataICAOLocation list result \<times> 'st" where
  "GetMETARs Do loc st =
     (case getMetarStrs Do loc st of
        (Inl err, st') \<Rightarrow> (Err err, st')
      | (Inr metars, st') \<Rightarrow> (metarLoop loc 0 metars [], st'))"

fun tafLoop :: "string list \<Rightarrow> nat \<Rightarrow> string list \<Rightarrow> ('f::zero) DataICAOLocation list \<Rightarrow>
    'f DataICAOLocation list result" where
  "tafLoop loc i [] result = Ok result"
| "tafLoop loc i (metar # rest) result =
     (if length metar > 0 then
        (if i < length loc
         then tafLoop loc (Suc i) rest (result @ [zeroLocation\<lparr>Location := loc ! i, Taf := metar\<rparr>])
         else Panic)
      else tafLoop loc (Suc i) rest result)"

definition GetTAFs :: "('f, 'st) conn \<Rightarrow> string list \<Rightarrow> 'st \<Rightarrow> ('f::zero) DataICAOLocation list result \<times> 'st" where
  "GetTAFs Do loc st =
     (case getTafStrs Do loc st of
        (Inl err, st') \<Rightarrow> (Err err, st')
      | (Inr tafs, st') \<Rightarrow> (tafLoop loc 0 tafs [], st'))"

text \<open>
  \<open>LocationExists\<close>, and the conditional create \<open>SetDataICAOLocation\<close>: EXISTS, then HSET
  with the six fields only when the key does not exist.
\<close>

definition LocationExists :: "('f, 'st) conn \<Rightarrow> string \<Rightarrow> 'st \<Rightarrow> (bool \<times> error option) \<times> 'st" where
  "LocationExists Do loc st =
     (let (r, st') = Do ''EXISTS'' [AStr (DbRedisICAOPrefixLocation @ loc)] st
      in (redisBool r, st'))"

definition SetDataICAOLocation :: "('f, 'st) conn \<Rightarrow> 'f DataICAOLocation \<Rightarrow> 'st \<Rightarrow> error option \<times> 'st" where
  "SetDataICAOLocation Do data st =
     (let (r, st1) = Do ''EXISTS'' [AStr (DbRedisICAOPrefixLocation @ Location data)] st
      in case redisBool r of
           (exists, Some err) \<Rightarrow> (Some (Error ''EXISTS command returned error''), st1)
         | (exists, None) \<Rightarrow>
             if \<not> exists then
               (let (r2, st2) = Do ''HSET''
                   [AStr (DbRedisICAOPrefixLocation @ Location data),
                    AStr DbRedisICAOLocFieldName, AStr (Name data),
                    AStr DbRedisICAOLocFieldCity, AStr (City data),
                    AStr DbRedisICAOLocFieldCountryCode, AStr (CountryCode data),
                    AStr DbRedisICAOLocFieldLatitude, AFloat (Latitude data),
                    AStr DbRedisICAOLocFieldLongitude, AFloat (Longitude data),
                    AStr DbRedisICAOLocFieldAltitudeFeet, AInt (AltitudeFeet data)] st1
                in (case r2 of Inl err \<Rightarrow> Some err | Inr _ \<Rightarrow> None, st2))
             else (None, st1))"

text \<open>
  \<open>SetMETAR\<close> and \<open>SetTAF\<close>: \<open>SET key value EX expire\<close>, returning the error of the command.
\<close>

definition SetMETAR :: "('f, 'st) conn \<Rightarrow> string \<Rightarrow> string \<Rightarrow> int \<Rightarrow> 'st \<Rightarrow> error option \<times> 'st" where
  "SetMETAR Do loc metar expire st =
     (let (r, st') = Do ''SET'' [AStr (DbRedisICAOPrefixMetar @ loc), AStr metar, AStr ''EX'', AInt expire] st
      in (case r of Inl err \<Rightarrow> Some err | Inr _ \<Rightarrow> None, st'))"

definition SetTAF :: "('f, 'st) conn \<Rightarrow> string \<Rightarrow> string \<Rightarrow> int \<Rightarrow> 'st \<Rightarrow> error option \<times> 'st" where
  "SetTAF Do loc taf expire st =
     (let (r, st') = Do ''SET'' [AStr (DbRedisICAOPrefixTaf @ loc), AStr taf, AStr ''EX'', AInt expire] st
      in (case r of Inl err \<Rightarrow> Some err | Inr _ \<Rightarrow> None, st'))"

subsection \<open>A Redis server\<close>

text \<open>
  The server behind the connection is not part of the repository. \<open>redisDo\<close> models the
  five commands the program issues, in the forms it issues them, by the documented
  behaviour of Redis: a store of hashes (a key with no field does not exist) and of
  strings with their time to live in seconds. EXISTS tests one key; HGETALL returns the
  fields and values of a hash; MGET returns nil for a key that holds no string; HSET
  creates or updates fields; SET with EX replaces the key, and is rejected with an
  error when the expire time is not positive. The lapse of time is not modelled.
  \<open>FormatFloat\<close> is the text the client sends for a float argument.
\<close>

record store =
  hashes :: "string \<Rightarrow> (string \<times> string) list"
  strs :: "string \<Rightarrow> (string \<times> int) option"

definition argStr :: "('f \<Rightarrow> string) \<Rightarrow> 'f arg \<Rightarrow> string" where
  "argStr FormatFloat a = (case a of AStr s \<Rightarrow> s | AInt i \<Rightarrow> Itoa i | AFloat x \<Rightarrow> FormatFloat x)"

fun hset :: "(string \<times> string) list \<Rightarrow> string \<Rightarrow> string \<Rightarrow> (string \<times> string) list" where
  "hset [] f v = [(f, v)]"
| "hset ((g, w) # h) f v = (if g = f then (f, v) # h else (g, w) # hset h f v)"

fun hsetAll :: "(string \<times> string) list \<Rightarrow> string list \<Rightarrow> (string \<times> string) list" where
  "hsetAll h (f # v # rest) = hsetAll (hset h f v) rest"
| "hsetAll h _ = h"

definition keyExists :: "store \<Rightarrow> string \<Rightarrow> bool" where
  "keyExists st k = (hashes st k \<noteq> [] \<or> strs st k \<noteq> None)"

definition redisDo :: "('f \<Rightarrow> string) \<Rightarrow> ('f, store) conn" where
  "redisDo FormatFloat cmd args st =
     (if cmd = ''EXISTS'' then
        (case args of
           [k] \<Rightarrow> (Inr (RInt (if keyExists st (argStr FormatFloat k) then 1 else 0)), st)
         | _ \<Rightarrow> (Inl (Error ''ERR wrong number of arguments''), st))
      else if cmd = ''HGETALL'' then
        (case args of
           [k] \<Rightarrow>
             if strs st (argStr FormatFloat k) \<noteq> None then (Inl (Error ''WRONGTYPE''), st)
             else (Inr (RArray (concat (map (\<lambda>(f, v). [RBulk f, RBulk v])
                                   (hashes st (argStr FormatFloat k))))), st)
         | _ \<Rightarrow> (Inl (Error ''ERR wrong number of arguments''), st))
      else if cmd = ''MGET'' then
        (case args of
           [] \<Rightarrow> (Inl (Error ''ERR wrong number of arguments''), st)
         | _ \<Rightarrow> (Inr (RArray (map (\<lambda>k. case strs st (argStr FormatFloat k) of
                                         None \<Rightarrow> RNil | Some (v, ttl) \<Rightarrow> RBulk v) args)), st))
      else if cmd = ''HSET'' then
        (case args of
           k # f # fvs \<Rightarrow>
             if even (length fvs) then (Inl (Error ''ERR wrong number of arguments''), st)
             else if strs st (argStr FormatFloat k) \<noteq> None then (Inl (Error ''WRONGTYPE''), st)
             else
               (let old = hashes st (argStr FormatFloat k);
                    new = hsetAll old (map (argStr FormatFloat) (f # fvs))
                in (Inr (RInt (int (length new) - int (length old))),
                    st\<lparr>hashes := (hashes st)(argStr FormatFloat k := new)\<rparr>))
         | _ \<Rightarrow> (Inl (Error ''ERR wrong number of arguments''), st))
      else if cmd = ''SET'' then
        (case args of
           [k, v, ex, AInt t] \<Rightarrow>
             if argStr FormatFloat ex \<noteq> ''EX'' then (Inl (Error ''ERR syntax error''), st)
             else if t \<le> 0 then (Inl (Error ''ERR invalid expire time in set''), st)
             else (Inr (RStatus ''OK''),
                   st\<lparr>strs := (strs st)(argStr FormatFloat k \<mapsto> (argStr FormatFloat v, t)),
                      hashes := (hashes st)(argStr FormatFloat k := [])\<rparr>)
         | _ \<Rightarrow> (Inl (Error ''ERR syntax error''), st))
      else (Inl (Error ''ERR unknown command''), st))"

definition emptyStore :: store where
  "emptyStore = \<lparr>hashes = (\<lambda>k. []), strs = (\<lambda>k. None)\<rparr>"

text \<open>
  The six fields \<open>SetDataICAOLocation\<close> writes for a record, as the server stores them.
\<close>

definition locationFields :: "('f \<Rightarrow> string) \<Rightarrow> 'f DataICAOLocation \<Rightarrow> (string \<times> string) list" where
  "locationFields F data =
     [(DbRedisICAOLocFieldName, Name data), (DbRedisICAOLocFieldCity, City data),
      (DbRedisICAOLocFieldCountryCode, CountryCode data),
      (DbRedisICAOLocFieldLatitude, F (Latitude data)),
      (DbRedisICAOLocFieldLongitude, F (Longitude data)),
      (DbRedisICAOLocFieldAltitudeFeet, Itoa (AltitudeFeet data))]"

section \<open>Package wxserver\<close>

definition maxLocations :: nat where "maxLocations = 16"
definition endpointMetar :: string where "endpointMetar = ''metar''"
definition endpointTaf :: string where "endpointTaf = ''taf''"
definition endpointLocation :: string where "endpointLocation = ''location''"
definition endpointAll :: string where "endpointAll = ''all''"

definition StatusForbidden :: nat where "StatusForbidden = 403"
definition StatusNotFound :: nat where "StatusNotFound = 404"
definition StatusUnprocessableEntity :: nat where "StatusUnprocessableEntity = 422"
definition StatusInternalServerError :: nat where "StatusInternalServerError = 500"

text \<open>
  The response a handler writes: the status code and the body, or nothing when the
  handler panics. \<open>json.MarshalIndent\<close> is a parameter, applied to one record or to a
  list of records.
\<close>

record QueryParameters =
  Locations :: "string list"

datatype response = Response nat string | HandlerPanic

datatype 'f json = JObject "'f DataICAOLocation" | JArray "'f DataICAOLocation list"

definition queryDatabase ::
  "('f, 'st) conn \<Rightarrow> (string \<Rightarrow> error + 'f) \<Rightarrow> string \<Rightarrow> string list \<Rightarrow> 'st \<Rightarrow>
   ('f::zero) DataICAOLocation list result \<times> 'st" where
  "queryDatabase Do ParseFloat endpoint locations st =
     (if endpoint = endpointMetar then GetMETARs Do locations st
      else if endpoint = endpointTaf then GetTAFs Do locations st
      else if endpoint = endpointLocation then
        (case GetICAOLocationData Do ParseFloat locations st of
           (Ok ld, st') \<Rightarrow> (Ok (map (\<lambda>d. d\<lparr>Metar := '''', Taf := ''''\<rparr>) ld), st')
         | (Err err, st') \<Rightarrow> (Err err, st')
         | (Panic, st') \<Rightarrow> (Panic, st'))
      else if endpoint = endpointAll then GetICAOLocationData Do ParseFloat locations st
      else (Err (Error ''Unknown Endpoint''), st))"

definition writeJSON :: "('f json \<Rightarrow> error + string) \<Rightarrow> 'f json \<Rightarrow> response" where
  "writeJSON MarshalIndent v =
     (case MarshalIndent v of
        Inl err \<Rightarrow> Response StatusInternalServerError ''Error converting to JSON''
      | Inr j \<Rightarrow> Response StatusOK (j @ [CHR 0x0A]))"

definition serveMultipleLocations ::
  "('f::zero, 'st) conn \<Rightarrow> (string \<Rightarrow> error + 'f) \<Rightarrow> ('f json \<Rightarrow> error + string) \<Rightarrow>
   string \<Rightarrow> QueryParameters \<Rightarrow> 'st \<Rightarrow> response \<times> 'st" where
  "serveMultipleLocations Do ParseFloat MarshalIndent endpoint qparam st =
     (if length (Locations qparam) > maxLocations
      then (Response StatusForbidden ''location specified while maximum is allowed'', st)
      else
        (case find (\<lambda>l. \<not> ValidateICAOLocation l) (Locations qparam) of
           Some l \<Rightarrow>
             (Response StatusUnprocessableEntity (''Invalid ICAO location code format '' @ l), st)
         | None \<Rightarrow>
             (case queryDatabase Do ParseFloat endpoint (Locations qparam) st of
                (Err err, st') \<Rightarrow>
                  (Response StatusInternalServerError ''Error retreiving data for locations'', st')
              | (Panic, st') \<Rightarrow> (HandlerPanic, st')
              | (Ok ld, st') \<Rightarrow> (writeJSON MarshalIndent (JArray ld), st'))))"

definition serveSingleLocation ::
  "('f::zero, 'st) conn \<Rightarrow> (string \<Rightarrow> error + 'f) \<Rightarrow> ('f json \<Rightarrow> error + string) \<Rightarrow>
   string \<Rightarrow> string \<Rightarrow> QueryParameters \<Rightarrow> 'st \<Rightarrow> response \<times> 'st" where
  "serveSingleLocation Do ParseFloat MarshalIndent endpoint location qparam st =
     (if \<not> ValidateICAOLocation location
      then (Response StatusUnprocessableEntity (''Invalid ICAO location code format '' @ location), st)
      else
        (case queryDatabase Do ParseFloat endpoint [location] st of
           (Err err, st1) \<Rightarrow>
             (Response StatusInternalServerError ''Error retreiving data for location'', st1)
         | (Panic, st1) \<Rightarrow> (HandlerPanic, st1)
         | (Ok ld, st1) \<Rightarrow>
             (case (if length ld < 1 then
                      (case LocationExists Do location st1 of
                         ((exists, Some err), st2) \<Rightarrow>
                           (Inl (Response StatusInternalServerError
                                   ''Error checking location existence''), st2)
                       | ((exists, None), st2) \<Rightarrow>
                           if \<not> exists
                           then (Inl (Response StatusNotFound ''Location is not found''), st2)
                           else (Inr (ld @ [zeroLocation\<lparr>Location := location\<rparr>]), st2))
                    else (Inr ld, st1)) of
                (Inl early, st2) \<Rightarrow> (early, st2)
              | (Inr ld', st2) \<Rightarrow>
                  if length ld' > 1
                  then (Response StatusInternalServerError ''Inconsistent data for ICAO location'', st2)
                  else (writeJSON MarshalIndent (JObject (ld' ! 0)), st2))))"


section \<open>Package wxupdate\<close>

definition avcMetarURL :: string where
  "avcMetarURL = ''https://www.aviationweather.gov/adds/dataserver_current/current/metars.cache.csv''"
definition avcTafURL :: string where
  "avcTafURL = ''https://www.aviationweather.gov/adds/dataserver_current/current/tafs.cache.csv''"
definition avcMetarCsvFieldRawText :: string where "avcMetarCsvFieldRawText = ''raw_text''"
definition avcMetarCsvFieldStationID :: string where "avcMetarCsvFieldStationID = ''station_id''"
definition avcMetarCsvFieldObservationTime :: string where "avcMetarCsvFieldObservationTime = ''observation_time''"
definition avcMetarCsvFieldMetarType :: string where "avcMetarCsvFieldMetarType = ''metar_type''"
definition avcTafCsvFieldRawText :: string where "avcTafCsvFieldRawText = ''raw_text''"
definition avcTafCsvFieldStationID :: string where "avcTafCsvFieldStationID = ''station_id''"
definition avcTafCsvFieldValidTimeTo :: string where "avcTafCsvFieldValidTimeTo = ''valid_time_to''"

text \<open>
  What an ingestion cycle reads from outside: the HTTP client, the two time parsers and
  the clock; the body of a feed is the list of its CSV lines. The clock is read once
  for the cycle. \<open>UpdateContext\<close> is the struct of the source with the database state in
  place of the database handle; \<open>Logged\<close> collects what the cycle writes to the process
  log, the constant part of each message. A cycle returns or, on an index out of range,
  panics.
\<close>

record world =
  httpHead :: "string \<Rightarrow> error + nat \<times> string list"
  httpGet :: "string \<Rightarrow> error + nat \<times> line list"
  parseRFC1123 :: "string \<Rightarrow> error + Time"
  parseRFC3339 :: "string \<Rightarrow> error + Time"
  now :: Time

record 'st UpdateContext =
  Db :: 'st
  MetarsLastUpdated :: Time
  TafsLastUpdated :: Time
  Logged :: "string list"

datatype 'a outcome = Returned 'a | Crashed 'a

definition logPrint :: "string \<Rightarrow> 'st UpdateContext \<Rightarrow> 'st UpdateContext" where
  "logPrint msg ctx = ctx\<lparr>Logged := Logged ctx @ [msg]\<rparr>"

definition index :: "string list \<Rightarrow> int \<Rightarrow> string option" where
  "index record i = (if 0 \<le> i \<and> i < int (length record) then Some (record ! nat i) else None)"

text \<open>
  The row loop of \<open>UpdateMetars\<close>: \<open>io.EOF\<close> breaks the loop, another read error
  returns; the record's columns are read by index (a panic out of range).
\<close>

function metarRows ::
  "('f, 'st) conn \<Rightarrow> world \<Rightarrow> int \<Rightarrow> int \<Rightarrow> int \<Rightarrow> int \<Rightarrow> Reader \<Rightarrow> 'st UpdateContext \<Rightarrow> nat \<Rightarrow>
   'st UpdateContext outcome" where
  "metarRows Do w colRawText colStation colObsTime colType r ctx num =
     (case Read r of
        ((record, Some err), r') \<Rightarrow>
          if err = EOF then Returned (logPrint (''Updated '' @ natStr num @ '' METARs'') ctx)
          else Returned (logPrint ''Error reading METAR CSV'' ctx)
      | ((record, None), r') \<Rightarrow>
          (case index record colObsTime of
             None \<Rightarrow> Crashed ctx
           | Some obsTime \<Rightarrow>
               (case ExpireSeconds (parseRFC3339 w) (now w) obsTime (3600 * 3) of
                  (expire, err) \<Rightarrow>
                    (let ctx1 = (case err of Some e \<Rightarrow> logPrint ''Cannot parse METAR time'' ctx
                                 | None \<Rightarrow> ctx)
                     in case (index record colType, index record colRawText, index record colStation) of
                          (Some metarType, Some rawText, Some station) \<Rightarrow>
                            (case SetMETAR Do station (metarType @ '' '' @ rawText) expire (Db ctx1) of
                               (err2, db') \<Rightarrow>
                                 metarRows Do w colRawText colStation colObsTime colType r'
                                   (case err2 of
                                      Some e \<Rightarrow> logPrint ''Cannot update METAR'' (ctx1\<lparr>Db := db'\<rparr>)
                                    | None \<Rightarrow> ctx1\<lparr>Db := db'\<rparr>)
                                   (Suc num))
                        | _ \<Rightarrow> Crashed ctx1))))"
  by pat_completeness auto
termination metarRows
  by (relation "measure (\<lambda>(Do, w, c1, c2, c3, c4, r, ctx, num). length (lines r))")
     (auto dest: Read_shrinks [OF sym])

declare metarRows.simps [simp del]

definition UpdateMetars :: "('f, 'st) conn \<Rightarrow> world \<Rightarrow> 'st UpdateContext \<Rightarrow> 'st UpdateContext outcome" where
  "UpdateMetars Do w ctx0 =
     (let ctx = logPrint ''Updating METARs'' ctx0
      in case GetFromURL (httpHead w) (httpGet w) (parseRFC1123 w) avcMetarURL (MetarsLastUpdated ctx) of
           (metars, Some err) \<Rightarrow> Returned (logPrint ''Error retreiving METARs'' ctx)
         | (None, None) \<Rightarrow> Returned (logPrint ''METARs not updated since last update'' ctx)
         | (Some metars, None) \<Rightarrow>
             (let ctx1 = logPrint ''Downloaded METARs'' (ctx\<lparr>MetarsLastUpdated := now w\<rparr>);
                  fieldNames = [avcMetarCsvFieldRawText, avcMetarCsvFieldStationID,
                                avcMetarCsvFieldObservationTime, avcMetarCsvFieldMetarType]
              in case ParseCsvHeader (NewReader metars) fieldNames of
                   ((fieldIdx, Some err), r) \<Rightarrow>
                     Returned (logPrint ''Error parsing header of METARs CSV'' ctx1)
                 | ((fieldIdx, None), r) \<Rightarrow>
                     if list_ex (\<lambda>idx. idx < 0) fieldIdx
                     then Returned (logPrint ''Field not found in METAR CSV'' ctx1)
                     else metarRows Do w (fieldIdx ! 0) (fieldIdx ! 1) (fieldIdx ! 2) (fieldIdx ! 3)
                            r ctx1 0))"

text \<open>The row loop of \<open>UpdateTafs\<close>, and the cycle.\<close>

function tafRows ::
  "('f, 'st) conn \<Rightarrow> world \<Rightarrow> int \<Rightarrow> int \<Rightarrow> int \<Rightarrow> Reader \<Rightarrow> 'st UpdateContext \<Rightarrow> nat \<Rightarrow>
   'st UpdateContext outcome" where
  "tafRows Do w colRawText colStation colTimeTo r ctx num =
     (case Read r of
        ((record, Some err), r') \<Rightarrow>
          if err = EOF then Returned (logPrint (''Updated '' @ natStr num @ '' TAFs'') ctx)
          else Returned (logPrint ''Error reading TAFs CSV'' ctx)
      | ((record, None), r') \<Rightarrow>
          (case index record colTimeTo of
             None \<Rightarrow> Crashed ctx
           | Some timeTo \<Rightarrow>
               (case ExpireSeconds (parseRFC3339 w) (now w) timeTo 0 of
                  (expire, err) \<Rightarrow>
                    (let ctx1 = (case err of Some e \<Rightarrow> logPrint ''Cannot parse TAFs time to'' ctx
                                 | None \<Rightarrow> ctx)
                     in case (index record colStation, index record colRawText) of
                          (Some station, Some rawText) \<Rightarrow>
                            (case SetTAF Do station rawText expire (Db ctx1) of
                               (err2, db') \<Rightarrow>
                                 tafRows Do w colRawText colStation colTimeTo r'
                                   (case err2 of
                                      Some e \<Rightarrow> logPrint ''Cannot update METAR'' (ctx1\<lparr>Db := db'\<rparr>)
                                    | None \<Rightarrow> ctx1\<lparr>Db := db'\<rparr>)
                                   (Suc num))
                        | _ \<Rightarrow> Crashed ctx1))))"
  by pat_completeness auto
termination tafRows
  by (relation "measure (\<lambda>(Do, w, c1, c2, c3, r, ctx, num). length (lines r))")
     (auto dest: Read_shrinks [OF sym])

declare tafRows.simps [simp del]

definition UpdateTafs :: "('f, 'st) conn \<Rightarrow> world \<Rightarrow> 'st UpdateContext \<Rightarrow> 'st UpdateContext outcome" where
  "UpdateTafs Do w ctx0 =
     (let ctx = logPrint ''Updating TAFs'' ctx0
      in case GetFromURL (httpHead w) (httpGet w) (parseRFC1123 w) avcTafURL (TafsLastUpdated ctx) of
           (tafs, Some err) \<Rightarrow> Returned (logPrint ''Error retreiving TAFs'' ctx)
         | (None, None) \<Rightarrow> Returned (logPrint ''TAFs not updated since last update'' ctx)
         | (Some tafs, None) \<Rightarrow>
             (let ctx1 = logPrint ''Downloaded TAFs'' (ctx\<lparr>TafsLastUpdated := now w\<rparr>);
                  fieldNames = [avcTafCsvFieldRawText, avcTafCsvFieldStationID, avcTafCsvFieldValidTimeTo]
              in case ParseCsvHeader (NewReader tafs) fieldNames of
                   ((fieldIdx, Some err), r) \<Rightarrow>
                     Returned (logPrint ''Error parsing header of TAFs CSV'' ctx1)
                 | ((fieldIdx, None), r) \<Rightarrow>
                     if list_ex (\<lambda>idx. idx < 0) fieldIdx
                     then Returned (logPrint ''Field not found in TAFs CSV'' ctx1)
                     else tafRows Do w (fieldIdx ! 0) (fieldIdx ! 1) (fieldIdx ! 2)
                            (r\<lparr>FieldsPerRecord := - 1\<rparr>) ctx1 0))"


section \<open>Sample inputs\<close>

text \<open>
  Concrete values for the parameters of the model, used to run the definitions: two
  timestamps as \<open>time.Parse\<close> reads them, a feed whose first data row has a malformed
  observation time, and an HTTP server that answers every request with status 200.
\<close>

definition sampleParseRFC3339 :: "string \<Rightarrow> error + Time" where
  "sampleParseRFC3339 s =
     (if s = ''2026-11-01T05:50:00Z'' then Inr 1793512200000000000
      else if s = ''1970-01-01T00:00:00Z'' then Inr 0
      else Inl (Error ''parsing time''))"

definition sampleHead :: "string \<Rightarrow> error + nat \<times> string list" where
  "sampleHead url = Inr (200, [''Sun, 01 Nov 2026 06:00:00 GMT''])"

definition sampleParseRFC1123 :: "string \<Rightarrow> error + Time" where
  "sampleParseRFC1123 s =
     (if s = ''Sun, 01 Nov 2026 06:00:00 GMT'' then Inr 1793512800000000000
      else Inl (Error ''parsing time''))"

definition sampleFeed :: "line list" where
  "sampleFeed =
     [Fields [''No errors''], Fields [''2 results''],
      Fields [''raw_text'', ''station_id'', ''observation_time'', ''metar_type''],
      Fields [''UKLL 010600Z 27004MPS CAVOK'', ''UKLL'', ''not-a-time'', ''METAR''],
      Fields [''NZSP 010550Z 09010KT'', ''NZSP'', ''2026-11-01T05:50:00Z'', ''SPECI'']]"

definition sampleGet :: "string \<Rightarrow> error + nat \<times> line list" where
  "sampleGet url = Inr (200, sampleFeed)"

text \<open>
  A stored location hash, and \<open>strconv.ParseFloat\<close> on coordinates that are whole
  numbers.
\<close>

definition sampleHash :: gomap where
  "sampleHash =
     [(''name'', ''Lviv''), (''city'', ''Lviv''), (''country'', ''UA''),
      (''lat'', ''49''), (''lon'', ''23''), (''alt_ft'', ''-1071'')]"

definition sampleParseFloat :: "string \<Rightarrow> error + int" where
  "sampleParseFloat = Atoi"

text \<open>
  A float formatter for whole numbers, a connection that refuses every command and
  records the commands it was asked, a record to store, stores with one location hash
  and with one METAR, a marshaller that writes the location codes only, and sixteen
  valid codes.
\<close>

definition sampleFormatFloat :: "int \<Rightarrow> string" where
  "sampleFormatFloat = Itoa"

definition recordDo :: "('f, string list) conn" where
  "recordDo cmd args issued = (Inl (Error ''connection refused''), issued @ [cmd])"

definition sampleLocation :: "int DataICAOLocation" where
  "sampleLocation =
     zeroLocation\<lparr>Location := ''UKLL'', Name := ''Lviv'', City := ''Lviv'', CountryCode := ''UA'',
       Latitude := 49, Longitude := 23, AltitudeFeet := 1071\<rparr>"

definition sampleStore :: store where
  "sampleStore =
     emptyStore\<lparr>hashes := (hashes emptyStore)(''wx:icao:loc:UKLL'' := sampleHash)\<rparr>"

definition sampleMarshal :: "int json \<Rightarrow> error + string" where
  "sampleMarshal v =
     (case v of
        JObject d \<Rightarrow> Inr (Location d)
      | JArray ds \<Rightarrow> Inr (concat (map Location ds)))"

definition codes16 :: "string list" where
  "codes16 =
     [''UKLL'', ''NZSP'', ''NZTB'', ''NZPG'', ''NZFX'', ''SCRM'', ''NZWD'', ''EGLL'',
      ''KJFK'', ''LFPG'', ''EDDF'', ''UUEE'', ''RJTT'', ''YSSY'', ''FACT'', ''SBGR'']"

definition metarStore :: store where
  "metarStore =
     emptyStore\<lparr>strs := (strs emptyStore)(''wx:icao:metar:UKLL'' \<mapsto> (''METAR UKLL 010600Z'', 10140))\<rparr>"



section \<open>Properties of the location validator\<close>

lemma ValidateICAOLocation_iff:
  "ValidateICAOLocation loc \<longleftrightarrow> length loc = 4 \<and> list_all upperOrDigit (drop 1 loc)"
proof (cases "length loc = 4")
  case False
  then show ?thesis by (simp add: ValidateICAOLocation_def)
next
  case True
  then obtain a b cs where loc: "loc = a # b # cs"
    by (cases loc; simp) (metis length_0_conv list.exhaust numeral_eq_Suc old.nat.distinct(1))
  show ?thesis
    using True by (auto simp: ValidateICAOLocation_def loc upperOrDigit_def byte_def)
qed

lemma ValidateICAOLocation_UKLL: "ValidateICAOLocation ''UKLL''"
  by (simp add: ValidateICAOLocation_def upperOrDigit_def byte_def)

lemma ValidateICAOLocation_UKLLL: "\<not> ValidateICAOLocation ''UKLLL''"
  by (simp add: ValidateICAOLocation_def)

lemma icao_pattern_1KLL: "\<not> icao_pattern ''1KLL''"
  by (simp add: icao_pattern_def upper_def byte_def)

text \<open>
  C1. The claim says that the validator accepts exactly the strings of length 4 whose first
  byte is an uppercase letter and whose other three bytes are uppercase letters or digits,
  so that \<open>"1KLL"\<close> is rejected. The source's test of the first byte is
  \<open>loc[0] < 'A' && loc[1] > 'Z'\<close>: it never rejects a string that the loop accepts, and
  the validator returns true on \<open>"1KLL"\<close>.
\<close>

theorem ValidateICAOLocation_1KLL: "ValidateICAOLocation ''1KLL'' = True"
  by (simp add: ValidateICAOLocation_def upperOrDigit_def byte_def)

section \<open>Properties of the CSV header resolver\<close>

lemma indexFrom_ge: "indexFrom i xs f = - 1 \<or> int i \<le> indexFrom i xs f"
  by (induction xs arbitrary: i) (auto, force)

lemma indexFrom_absent: "indexFrom i xs f = - 1 \<longleftrightarrow> f \<notin> set xs"
proof (induction xs arbitrary: i)
  case (Cons x xs)
  then show ?case using indexFrom_ge [of "Suc i" xs f] by auto
qed simp

lemma indexFrom_snoc:
  "indexFrom i (xs @ [x]) f =
     (if indexFrom i xs f \<noteq> - 1 then indexFrom i xs f
      else if x = f then int (i + length xs) else - 1)"
  by (induction xs arbitrary: i) auto

lemma indexFrom_nth:
  "f \<in> set xs \<Longrightarrow> \<exists>k < length xs. indexFrom i xs f = int (i + k) \<and> xs ! k = f \<and> (\<forall>j<k. xs ! j \<noteq> f)"
proof (induction xs arbitrary: i)
  case (Cons x xs)
  show ?case
  proof (cases "x = f")
    case True then show ?thesis by auto
  next
    case False
    with Cons.prems have "f \<in> set xs" by simp
    from Cons.IH [OF this, of "Suc i"] obtain k where
      k: "k < length xs" "indexFrom (Suc i) xs f = int (Suc i + k)" "xs ! k = f" "\<forall>j<k. xs ! j \<noteq> f"
      by blast
    have "\<forall>j<Suc k. (x # xs) ! j \<noteq> f"
      using False k(4) by (auto simp: nth_Cons split: nat.splits)
    with k False show ?thesis
      by (intro exI [of _ "Suc k"]) auto
  qed
qed simp

lemma matchField_prefix:
  "k \<le> length fieldNames \<Longrightarrow> length result = length fieldNames \<Longrightarrow>
   length (foldl (\<lambda>res j. if s = fieldNames ! j \<and> res ! j = - 1 then res[j := int i] else res)
       result [0..<k]) = length fieldNames \<and>
   (\<forall>j < length fieldNames.
     foldl (\<lambda>res j. if s = fieldNames ! j \<and> res ! j = - 1 then res[j := int i] else res)
       result [0..<k] ! j =
     (if j < k \<and> s = fieldNames ! j \<and> result ! j = - 1 then int i else result ! j))"
proof (induction k)
  case (Suc k)
  then show ?case by (auto simp: nth_list_update less_Suc_eq)
qed simp

lemma matchField_nth:
  assumes "length result = length fieldNames" "j < length fieldNames"
  shows "matchField fieldNames i s result ! j =
           (if s = fieldNames ! j \<and> result ! j = - 1 then int i else result ! j)"
  using matchField_prefix [OF le_refl assms(1), of s i] assms(2)
  by (simp add: matchField_def)

lemma matchField_length:
  "length result = length fieldNames \<Longrightarrow> length (matchField fieldNames i s result) = length fieldNames"
  using matchField_prefix [OF le_refl, of result fieldNames s i] by (simp add: matchField_def)

lemma matchRecord_prefix:
  "k \<le> length row \<Longrightarrow>
   foldl (\<lambda>res i. matchField fieldNames i (row ! i) res)
     (replicate (length fieldNames) (- 1)) [0..<k] =
   map (firstIndex (take k row)) fieldNames"
proof (induction k)
  case 0
  then show ?case by (simp add: firstIndex_def map_replicate_const)
next
  case (Suc k)
  then have k: "k < length row" by simp
  let ?prev = "map (firstIndex (take k row)) fieldNames"
  have "matchField fieldNames k (row ! k) ?prev = map (firstIndex (take (Suc k) row)) fieldNames"
  proof (rule nth_equalityI)
    show "length (matchField fieldNames k (row ! k) ?prev) =
          length (map (firstIndex (take (Suc k) row)) fieldNames)"
      by (simp add: matchField_length)
  next
    fix j assume "j < length (matchField fieldNames k (row ! k) ?prev)"
    then have j: "j < length fieldNames" by (simp add: matchField_length)
    show "matchField fieldNames k (row ! k) ?prev ! j =
          map (firstIndex (take (Suc k) row)) fieldNames ! j"
      using j k
      by (simp add: matchField_nth firstIndex_def take_Suc_conv_app_nth indexFrom_snoc min_def)
  qed
  with Suc show ?case by simp
qed

lemma matchRecord_firstIndex:
  "matchRecord fieldNames row (replicate (length fieldNames) (- 1)) =
     map (firstIndex row) fieldNames"
  using matchRecord_prefix [OF le_refl, of fieldNames row] by (simp add: matchRecord_def)

lemma headerLoop_skips:
  "lines src = map Fields pre @ Fields hdr # rest \<Longrightarrow> FieldsPerRecord src = - 1 \<Longrightarrow>
   \<forall>p \<in> set pre. length p \<le> 1 \<Longrightarrow> 1 < length hdr \<Longrightarrow>
   headerLoop fieldNames result src =
     ((matchRecord fieldNames hdr result, None),
      src\<lparr>lines := rest, FieldsPerRecord := int (length hdr)\<rparr>)"
proof (induction pre arbitrary: src)
  case Nil
  then show ?case by (subst headerLoop.simps) (simp add: Read_def)
next
  case (Cons p pre)
  let ?src' = "src\<lparr>lines := map Fields pre @ Fields hdr # rest\<rparr>"
  have "headerLoop fieldNames result src = headerLoop fieldNames result ?src'"
    using Cons.prems by (subst headerLoop.simps) (simp add: Read_def)
  also have "\<dots> = ((matchRecord fieldNames hdr result, None),
      ?src'\<lparr>lines := rest, FieldsPerRecord := int (length hdr)\<rparr>)"
    using Cons.prems by (intro Cons.IH) auto
  finally show ?case by simp
qed

lemma firstIndex_absent: "firstIndex hdr f = - 1 \<longleftrightarrow> f \<notin> set hdr"
  by (simp add: firstIndex_def indexFrom_absent)

lemma firstIndex_first:
  "f \<in> set hdr \<Longrightarrow>
   \<exists>k < length hdr. firstIndex hdr f = int k \<and> hdr ! k = f \<and> (\<forall>j<k. hdr ! j \<noteq> f)"
  using indexFrom_nth [of f hdr 0] by (simp add: firstIndex_def)

lemma ParseCsvHeader_header_row:
  assumes "fieldNames \<noteq> []"
    and "lines src = map Fields pre @ Fields hdr # rest"
    and "\<forall>p \<in> set pre. length p \<le> 1"
    and "1 < length hdr"
  shows "ParseCsvHeader src fieldNames =
           ((map (firstIndex hdr) fieldNames, None),
            src\<lparr>lines := rest, FieldsPerRecord := int (length hdr)\<rparr>)"
proof -
  have "headerLoop fieldNames (replicate (length fieldNames) (- 1)) (src\<lparr>FieldsPerRecord := - 1\<rparr>) =
     ((matchRecord fieldNames hdr (replicate (length fieldNames) (- 1)), None),
      src\<lparr>FieldsPerRecord := - 1\<rparr>\<lparr>lines := rest, FieldsPerRecord := int (length hdr)\<rparr>)"
    using assms by (intro headerLoop_skips [of _ pre]) auto
  moreover have "\<not> length fieldNames < 1"
    using assms(1) by (cases fieldNames) simp_all
  ultimately show ?thesis
    by (simp add: ParseCsvHeader_def matchRecord_firstIndex)
qed

text \<open>
  C3, as the code has it. For a non-empty list of names and a stream whose first row
  with more than one field is \<open>hdr\<close>, after rows \<open>pre\<close> of at most one field each:
  \<open>ParseCsvHeader\<close> consumes the rows up to and including \<open>hdr\<close>, fixes the field count to
  the width of \<open>hdr\<close>, and returns for every name its \<open>firstIndex\<close> in \<open>hdr\<close> and no error.
  \<open>firstIndex\<close> is \<open>-1\<close> exactly for a name that is absent from \<open>hdr\<close>, and otherwise the
  zero-based position of the first field equal to the name. So an absent name is
  reported as \<open>-1\<close>, and the function itself reports no error for it: the sign of the
  index is what the callers test.
\<close>

theorem ParseCsvHeader_resolves:
  assumes "fieldNames \<noteq> []"
    and "lines src = map Fields pre @ Fields hdr # rest"
    and "\<forall>p \<in> set pre. length p \<le> 1"
    and "1 < length hdr"
  shows "ParseCsvHeader src fieldNames =
           ((map (firstIndex hdr) fieldNames, None),
            src\<lparr>lines := rest, FieldsPerRecord := int (length hdr)\<rparr>) \<and>
         (\<forall>f. (firstIndex hdr f = - 1) = (f \<notin> set hdr)) \<and>
         (\<forall>f \<in> set hdr. \<exists>k < length hdr.
            firstIndex hdr f = int k \<and> hdr ! k = f \<and> (\<forall>j<k. hdr ! j \<noteq> f))"
  using ParseCsvHeader_header_row [OF assms] firstIndex_absent firstIndex_first by blast

theorem ParseCsvHeader_resolves_witness:
  "ParseCsvHeader (NewReader [Fields [''x''], Fields [''y''], Fields [''b'', ''a'', ''c'']]) [''a'', ''b''] =
     (([1, 0], None), \<lparr>lines = [], FieldsPerRecord = 3\<rparr>)"
  using ParseCsvHeader_resolves
    [of "[''a'', ''b'']" "NewReader [Fields [''x''], Fields [''y''], Fields [''b'', ''a'', ''c'']]"
        "[[''x''], [''y'']]" "[''b'', ''a'', ''c'']" "[]"]
  by (simp add: NewReader_def firstIndex_def)

text \<open>
  The claim as stated fails: with the header row \<open>b,a,c\<close> and the names \<open>a\<close> and \<open>z\<close>, the
  name \<open>z\<close> is absent, and \<open>ParseCsvHeader\<close> returns the indices \<open>[1, -1]\<close> with a nil error.
\<close>

theorem ParseCsvHeader_absent_name_no_error:
  "fst (ParseCsvHeader (NewReader [Fields [''x''], Fields [''y''], Fields [''b'', ''a'', ''c'']])
          [''a'', ''z'']) = ([1, - 1], None)"
  using ParseCsvHeader_header_row
    [of "[''a'', ''z'']" "NewReader [Fields [''x''], Fields [''y''], Fields [''b'', ''a'', ''c'']]"
        "[[''x''], [''y'']]" "[''b'', ''a'', ''c'']" "[]"]
  by (simp add: NewReader_def firstIndex_def)

section \<open>Properties of the TTL calculator\<close>

lemma wrap64_id: "int64 x \<Longrightarrow> wrap64 x = x"
  by (simp add: wrap64_def int64_def signed_take_bit_int_eq_self)

lemma wrap64_diff: "wrap64 (wrap64 a - b) = wrap64 (a - b)"
  unfolding wrap64_def by (metis signed_take_bit_diff signed_take_bit_signed_take_bit min.idem)

lemma ExpireSeconds_parsed:
  "parse timeStr = Inr tm \<Longrightarrow>
   ExpireSeconds parse t0 timeStr expire = (wrap64 (Unix tm + expire - Unix t0), None)"
  by (simp add: ExpireSeconds_def wrap64_diff)

lemma ExpireSeconds_exact:
  "parse timeStr = Inr tm \<Longrightarrow> int64 (Unix tm + expire - Unix t0) \<Longrightarrow>
   ExpireSeconds parse t0 timeStr expire = (Unix tm + expire - Unix t0, None)"
  by (simp add: ExpireSeconds_parsed wrap64_id)

lemma Unix_mono: "t1 \<le> t2 \<Longrightarrow> Unix t1 \<le> Unix t2"
  by (simp add: Unix_def zdiv_mono1)

text \<open>
  C4, as the code has it. For a timestamp that parses to the instant \<open>tm\<close>:
  \<open>ExpireSeconds\<close> returns \<open>Unix tm + expire - Unix now\<close> and no error, and the result does
  not grow as the clock advances, provided the difference is in the range of \<open>int64\<close>;
  for a timestamp that does not parse it returns the parse error (with \<open>expire\<close> as the
  value).
\<close>

theorem ExpireSeconds_spec:
  "(parse timeStr = Inr tm \<and> int64 (Unix tm + expire - Unix t0) \<longrightarrow>
      ExpireSeconds parse t0 timeStr expire = (Unix tm + expire - Unix t0, None)) \<and>
   (parse timeStr = Inr tm \<and> t0 \<le> later \<and>
      int64 (Unix tm + expire - Unix t0) \<and> int64 (Unix tm + expire - Unix later) \<longrightarrow>
      fst (ExpireSeconds parse later timeStr expire) \<le>
      fst (ExpireSeconds parse t0 timeStr expire)) \<and>
   (parse timeStr = Inl err \<longrightarrow>
      ExpireSeconds parse t0 timeStr expire = (expire, Some err))"
  using Unix_mono [of t0 later]
  by (auto simp: ExpireSeconds_exact) (simp add: ExpireSeconds_def)

theorem ExpireSeconds_spec_witness:
  "ExpireSeconds sampleParseRFC3339 1793512860000000000 ''2026-11-01T05:50:00Z'' 10800 = (10140, None) \<and>
   fst (ExpireSeconds sampleParseRFC3339 1793512861000000000 ''2026-11-01T05:50:00Z'' 10800) \<le>
   fst (ExpireSeconds sampleParseRFC3339 1793512860000000000 ''2026-11-01T05:50:00Z'' 10800) \<and>
   ExpireSeconds sampleParseRFC3339 1793512860000000000 ''not-a-time'' 10800 =
     (10800, Some (Error ''parsing time''))"
proof -
  have p: "sampleParseRFC3339 ''2026-11-01T05:50:00Z'' = Inr 1793512200000000000"
    and q: "sampleParseRFC3339 ''not-a-time'' = Inl (Error ''parsing time'')"
    by (simp_all add: sampleParseRFC3339_def)
  have r: "int64 (Unix 1793512200000000000 + 10800 - Unix 1793512860000000000)"
    "int64 (Unix 1793512200000000000 + 10800 - Unix 1793512861000000000)"
    by (simp_all add: Unix_def int64_def)
  have le: "(1793512860000000000 :: int) \<le> 1793512861000000000"
    by simp
  have v: "Unix 1793512200000000000 + 10800 - Unix 1793512860000000000 = 10140"
    by (simp add: Unix_def)
  note T = ExpireSeconds_spec [of sampleParseRFC3339 "''2026-11-01T05:50:00Z''" 1793512200000000000
      10800 1793512860000000000 1793512861000000000]
  note N = ExpireSeconds_spec [of sampleParseRFC3339 "''not-a-time''" _
      10800 1793512860000000000 _ "Error ''parsing time''"]
  have "ExpireSeconds sampleParseRFC3339 1793512860000000000 ''2026-11-01T05:50:00Z'' 10800 = (10140, None)"
    using T p r v by simp
  moreover have "fst (ExpireSeconds sampleParseRFC3339 1793512861000000000 ''2026-11-01T05:50:00Z'' 10800) \<le>
      fst (ExpireSeconds sampleParseRFC3339 1793512860000000000 ''2026-11-01T05:50:00Z'' 10800)"
    using T p r le by blast
  moreover have "ExpireSeconds sampleParseRFC3339 1793512860000000000 ''not-a-time'' 10800 =
     (10800, Some (Error ''parsing time''))"
    using N q by simp
  ultimately show ?thesis by simp
qed

text \<open>
  The claim as stated, for every integer window, fails where the \<open>int64\<close> arithmetic
  wraps around: with the window \<open>-9223372035254775808\<close> and the epoch as timestamp, the
  result is the least \<open>int64\<close> at the clock reading 1600000000 and the greatest \<open>int64\<close> one
  second later. It is neither \<open>Unix tm + expire - Unix now\<close> nor decreasing.
\<close>

theorem ExpireSeconds_overflow:
  "fst (ExpireSeconds sampleParseRFC3339 1600000000000000000 ''1970-01-01T00:00:00Z''
          (- 9223372035254775808)) = - 9223372036854775808 \<and>
   fst (ExpireSeconds sampleParseRFC3339 1600000001000000000 ''1970-01-01T00:00:00Z''
          (- 9223372035254775808)) = 9223372036854775807"
  by (simp add: ExpireSeconds_def sampleParseRFC3339_def Unix_def wrap64_def
      signed_take_bit_eq_take_bit_shift mask_eq_exp_minus_1)

section \<open>Properties of the conditional fetch\<close>

lemma GetFromURL_probe:
  assumes "probe url = Inr (StatusOK, [lastModified])" and "parse lastModified = Inr lastModTime"
  shows "GetFromURL probe fetch parse url lastUpdated =
           (if lastModTime < lastUpdated then (None, None)
            else (case fetch url of
                    Inl err \<Rightarrow> (None, Some err)
                  | Inr (status, body) \<Rightarrow>
                      if status \<noteq> StatusOK then (None, Some (Error ''Request resulted in code''))
                      else (Some body, None)))"
  using assms by (simp add: GetFromURL_def)

text \<open>
  C8, as the code has it. When the HEAD request answers 200 with one \<open>Last-Modified\<close>
  value that parses to \<open>lastModTime\<close>: if \<open>lastModTime\<close> is strictly before \<open>lastUpdated\<close>,
  \<open>GetFromURL\<close> returns no body and no error; otherwise, also when the two are equal, it
  issues the GET request and returns its body (or its error).
\<close>

theorem GetFromURL_conditional:
  assumes "probe url = Inr (StatusOK, [lastModified])" and "parse lastModified = Inr lastModTime"
  shows "(lastModTime < lastUpdated \<longrightarrow> GetFromURL probe fetch parse url lastUpdated = (None, None)) \<and>
         (lastUpdated \<le> lastModTime \<longrightarrow>
            GetFromURL probe fetch parse url lastUpdated =
              (case fetch url of
                 Inl err \<Rightarrow> (None, Some err)
               | Inr (status, body) \<Rightarrow>
                   if status \<noteq> StatusOK then (None, Some (Error ''Request resulted in code''))
                   else (Some body, None)))"
  using assms
    GetFromURL_probe [where probe = probe and url = url and parse = parse and fetch = fetch
      and lastModified = lastModified and lastModTime = lastModTime and lastUpdated = lastUpdated]
  by simp

theorem GetFromURL_conditional_witness:
  "GetFromURL sampleHead sampleGet sampleParseRFC1123 avcMetarURL 1793512860000000000 = (None, None) \<and>
   GetFromURL sampleHead sampleGet sampleParseRFC1123 avcMetarURL 0 = (Some sampleFeed, None)"
proof -
  have h: "sampleHead avcMetarURL = Inr (StatusOK, [''Sun, 01 Nov 2026 06:00:00 GMT''])"
    by (simp add: sampleHead_def StatusOK_def)
  have p: "sampleParseRFC1123 ''Sun, 01 Nov 2026 06:00:00 GMT'' = Inr 1793512800000000000"
    by (simp add: sampleParseRFC1123_def)
  show ?thesis
    using h p
      GetFromURL_conditional [where probe = sampleHead and url = avcMetarURL
        and parse = sampleParseRFC1123 and fetch = sampleGet
        and lastModified = "''Sun, 01 Nov 2026 06:00:00 GMT''"
        and lastModTime = 1793512800000000000 and lastUpdated = 1793512860000000000]
      GetFromURL_conditional [where probe = sampleHead and url = avcMetarURL
        and parse = sampleParseRFC1123 and fetch = sampleGet
        and lastModified = "''Sun, 01 Nov 2026 06:00:00 GMT''"
        and lastModTime = 1793512800000000000 and lastUpdated = 0]
    by (simp add: sampleGet_def StatusOK_def)
qed

text \<open>
  The claim as stated fails where the two instants are equal: the body is downloaded.
\<close>

theorem GetFromURL_equal_downloads:
  "GetFromURL sampleHead sampleGet sampleParseRFC1123 avcMetarURL 1793512800000000000 =
     (Some sampleFeed, None)"
  by (simp add: GetFromURL_def sampleHead_def sampleGet_def sampleParseRFC1123_def StatusOK_def)

section \<open>Properties of the location record\<close>

lemma sdiv_truncates: "(a::int) sdiv b = sgn a * sgn b * (\<bar>a\<bar> div \<bar>b\<bar>)"
  by (simp add: signed_divide_int_def)

lemma wrap64_feet:
  "\<bar>alt\<bar> \<le> 3026040694506160 \<Longrightarrow> wrap64 (alt * 3048) = alt * 3048"
  by (rule wrap64_id) (simp add: int64_def abs_le_iff)

text \<open>
  C10. For every record \<open>makeLocationData\<close> builds from a stored hash: the altitude in
  feet is the integer \<open>strconv.Atoi\<close> reads from the field \<open>alt_ft\<close>, and the altitude in
  meters is the integer computation \<open>int(alt * 3048 / 10000)\<close>: the product in Go's \<open>int\<close>,
  divided by 10000 and truncated towards zero (the sign times the quotient of the
  absolute values), not rounded. For every altitude up to 3026040694506160 feet in
  absolute value the product is the exact one.
\<close>

theorem makeLocationData_altitude:
  assumes "makeLocationData ParseFloat loc s = Inr l"
  shows "Atoi (lookup s DbRedisICAOLocFieldAltitudeFeet) = Inr (AltitudeFeet l) \<and>
         AltitudeMeters l =
           sgn (wrap64 (AltitudeFeet l * 3048)) * (\<bar>wrap64 (AltitudeFeet l * 3048)\<bar> div 10000) \<and>
         (\<bar>AltitudeFeet l\<bar> \<le> 3026040694506160 \<longrightarrow>
            AltitudeMeters l = sgn (AltitudeFeet l) * (\<bar>AltitudeFeet l * 3048\<bar> div 10000))"
proof -
  from assms obtain alt lat lon where
    a: "Atoi (lookup s DbRedisICAOLocFieldAltitudeFeet) = Inr alt"
    and l: "l = zeroLocation
                \<lparr>Location := loc,
                 Name := lookup s DbRedisICAOLocFieldName,
                 City := lookup s DbRedisICAOLocFieldCity,
                 CountryCode := lookup s DbRedisICAOLocFieldCountryCode,
                 AltitudeFeet := alt,
                 AltitudeMeters := wrap64 (alt * 3048) sdiv 10000,
                 Latitude := lat,
                 Longitude := lon\<rparr>"
    by (auto simp: makeLocationData_def split: sum.splits)
  have feet: "AltitudeFeet l = alt" and meters: "AltitudeMeters l = wrap64 (alt * 3048) sdiv 10000"
    by (simp_all add: l)
  have "wrap64 (alt * 3048) sdiv 10000 = sgn (wrap64 (alt * 3048)) * (\<bar>wrap64 (alt * 3048)\<bar> div 10000)"
    by (simp add: sdiv_truncates)
  moreover have "\<bar>alt\<bar> \<le> 3026040694506160 \<Longrightarrow>
      wrap64 (alt * 3048) sdiv 10000 = sgn alt * (\<bar>alt * 3048\<bar> div 10000)"
    by (simp add: wrap64_feet sdiv_truncates sgn_mult)
  ultimately show ?thesis
    using a feet meters by simp
qed

lemma sample_makeLocationData:
  "makeLocationData sampleParseFloat ''UKLL'' sampleHash =
     Inr \<lparr>Location = ''UKLL'', Metar = [], Taf = [], Name = ''Lviv'', City = ''Lviv'',
          CountryCode = ''UA'', Latitude = 49, Longitude = 23, AltitudeMeters = - 326,
          AltitudeFeet = - 1071\<rparr>"
  by (simp add: makeLocationData_def sampleHash_def sampleParseFloat_def lookup_def Atoi_def digit_def byte_def int64_def
      zeroLocation_def wrap64_def signed_take_bit_eq_take_bit_shift mask_eq_exp_minus_1 sdiv_truncates
      DbRedisICAOLocFieldAltitudeFeet_def DbRedisICAOLocFieldLatitude_def DbRedisICAOLocFieldLongitude_def
      DbRedisICAOLocFieldName_def DbRedisICAOLocFieldCity_def DbRedisICAOLocFieldCountryCode_def)

theorem makeLocationData_altitude_witness:
  "Atoi (lookup sampleHash DbRedisICAOLocFieldAltitudeFeet) = Inr (- 1071) \<and>
   AltitudeMeters (projr (makeLocationData sampleParseFloat ''UKLL'' sampleHash)) = - 326"
  using makeLocationData_altitude [OF sample_makeLocationData]
  by (simp add: sample_makeLocationData)


text \<open>Truncation, not rounding: 3 feet are 0.9144 meters, and 0 in the record; so are -3 feet.\<close>

lemma altitude_not_rounded:
  "wrap64 (3 * 3048) sdiv 10000 = 0" "wrap64 (- 3 * 3048) sdiv 10000 = 0"
  by (simp_all add: wrap64_def signed_take_bit_eq_take_bit_shift mask_eq_exp_minus_1 sdiv_truncates)

section \<open>Properties of the storage writes\<close>

lemma SetMETAR_forwards:
  "SetMETAR Do loc metar expire st =
     (case fst (Do ''SET'' [AStr (DbRedisICAOPrefixMetar @ loc), AStr metar, AStr ''EX'', AInt expire] st) of
        Inl err \<Rightarrow> Some err | Inr r \<Rightarrow> None,
      snd (Do ''SET'' [AStr (DbRedisICAOPrefixMetar @ loc), AStr metar, AStr ''EX'', AInt expire] st))"
  by (simp add: SetMETAR_def split: prod.splits)

lemma SetTAF_forwards:
  "SetTAF Do loc taf expire st =
     (case fst (Do ''SET'' [AStr (DbRedisICAOPrefixTaf @ loc), AStr taf, AStr ''EX'', AInt expire] st) of
        Inl err \<Rightarrow> Some err | Inr r \<Rightarrow> None,
      snd (Do ''SET'' [AStr (DbRedisICAOPrefixTaf @ loc), AStr taf, AStr ''EX'', AInt expire] st))"
  by (simp add: SetTAF_def split: prod.splits)

lemma redisDo_SET:
  "redisDo F ''SET'' [AStr k, AStr v, AStr ''EX'', AInt t] st =
     (if t \<le> 0 then (Inl (Error ''ERR invalid expire time in set''), st)
      else (Inr (RStatus ''OK''), st\<lparr>strs := (strs st)(k \<mapsto> (v, t)), hashes := (hashes st)(k := [])\<rparr>))"
  by (simp add: redisDo_def argStr_def)

text \<open>
  C5, as the code has it. \<open>SetMETAR\<close> and \<open>SetTAF\<close> make no test of the time to live:
  on every connection they issue \<open>SET key value EX t\<close> with \<open>t\<close> unchanged and return the
  error of that command, or nil. Against a Redis server, which rejects an expire time
  that is not positive, the write with \<open>t \<le> 0\<close> returns that error and leaves the store
  as it was.
\<close>

theorem SetMETAR_SetTAF_nonpositive:
  "SetMETAR Do loc v t st =
     (case fst (Do ''SET'' [AStr (DbRedisICAOPrefixMetar @ loc), AStr v, AStr ''EX'', AInt t] st) of
        Inl err \<Rightarrow> Some err | Inr r \<Rightarrow> None,
      snd (Do ''SET'' [AStr (DbRedisICAOPrefixMetar @ loc), AStr v, AStr ''EX'', AInt t] st)) \<and>
   SetTAF Do loc v t st =
     (case fst (Do ''SET'' [AStr (DbRedisICAOPrefixTaf @ loc), AStr v, AStr ''EX'', AInt t] st) of
        Inl err \<Rightarrow> Some err | Inr r \<Rightarrow> None,
      snd (Do ''SET'' [AStr (DbRedisICAOPrefixTaf @ loc), AStr v, AStr ''EX'', AInt t] st)) \<and>
   (t \<le> 0 \<longrightarrow>
      SetMETAR (redisDo F) loc v t db = (Some (Error ''ERR invalid expire time in set''), db) \<and>
      SetTAF (redisDo F) loc v t db = (Some (Error ''ERR invalid expire time in set''), db))"
  by (simp add: SetMETAR_forwards SetTAF_forwards redisDo_SET)

theorem SetMETAR_SetTAF_nonpositive_witness:
  "SetMETAR (redisDo sampleFormatFloat) ''UKLL'' ''METAR UKLL 010600Z'' (- 60) emptyStore =
     (Some (Error ''ERR invalid expire time in set''), emptyStore) \<and>
   SetTAF (redisDo sampleFormatFloat) ''UKLL'' ''TAF UKLL 010500Z'' 0 emptyStore =
     (Some (Error ''ERR invalid expire time in set''), emptyStore)"
proof -
  have le: "(- 60 :: int) \<le> 0" "(0 :: int) \<le> 0"
    by simp_all
  show ?thesis
    using le
      SetMETAR_SetTAF_nonpositive [of recordDo "''UKLL''" "''METAR UKLL 010600Z''" "- 60" "[]"
        sampleFormatFloat emptyStore]
      SetMETAR_SetTAF_nonpositive [of recordDo "''UKLL''" "''TAF UKLL 010500Z''" 0 "[]"
        sampleFormatFloat emptyStore]
    by blast
qed

text \<open>
  The claim as stated fails: \<open>SetTAF\<close> with the time to live 0 reports an error.
\<close>

theorem SetTAF_zero_is_error:
  "fst (SetTAF (redisDo sampleFormatFloat) ''UKLL'' ''TAF UKLL 010500Z'' 0 emptyStore) =
     Some (Error ''ERR invalid expire time in set'')"
  by (simp add: SetTAF_forwards redisDo_SET)

section \<open>Properties of the conditional create\<close>

lemma redisDo_EXISTS:
  "redisDo F ''EXISTS'' [AStr k] st = (Inr (RInt (if keyExists st k then 1 else 0)), st)"
  by (simp add: redisDo_def argStr_def)

lemma redisDo_HSET_new:
  assumes "\<not> keyExists st k"
  shows "redisDo F ''HSET''
           [AStr k,
            AStr DbRedisICAOLocFieldName, AStr (Name data),
            AStr DbRedisICAOLocFieldCity, AStr (City data),
            AStr DbRedisICAOLocFieldCountryCode, AStr (CountryCode data),
            AStr DbRedisICAOLocFieldLatitude, AFloat (Latitude data),
            AStr DbRedisICAOLocFieldLongitude, AFloat (Longitude data),
            AStr DbRedisICAOLocFieldAltitudeFeet, AInt (AltitudeFeet data)] st =
         (Inr (RInt 6), st\<lparr>hashes := (hashes st)(k := locationFields F data)\<rparr>)"
  using assms
  by (simp add: redisDo_def argStr_def keyExists_def locationFields_def
      DbRedisICAOLocFieldAltitudeFeet_def DbRedisICAOLocFieldLatitude_def DbRedisICAOLocFieldLongitude_def
      DbRedisICAOLocFieldName_def DbRedisICAOLocFieldCity_def DbRedisICAOLocFieldCountryCode_def)

lemma SetDataICAOLocation_exists:
  assumes "Do ''EXISTS'' [AStr (DbRedisICAOPrefixLocation @ Location data)] st = (r, st1)"
    and "redisBool r = (True, None)"
  shows "SetDataICAOLocation Do data st = (None, st1)"
  using assms by (simp add: SetDataICAOLocation_def)

text \<open>
  C7. When the key of the record's location exists, \<open>SetDataICAOLocation\<close> returns nil
  and leaves the whole store, and so every field of the stored record, unchanged.
  When the key does not exist it writes the six fields of the new record under the
  key, and nothing else.
\<close>

theorem SetDataICAOLocation_create_if_absent:
  "(keyExists st (DbRedisICAOPrefixLocation @ Location data) \<longrightarrow>
      SetDataICAOLocation (redisDo F) data st = (None, st)) \<and>
   (\<not> keyExists st (DbRedisICAOPrefixLocation @ Location data) \<longrightarrow>
      SetDataICAOLocation (redisDo F) data st =
        (None, st\<lparr>hashes := (hashes st)
                  (DbRedisICAOPrefixLocation @ Location data := locationFields F data)\<rparr>))"
proof (intro conjI impI)
  assume "keyExists st (DbRedisICAOPrefixLocation @ Location data)"
  then show "SetDataICAOLocation (redisDo F) data st = (None, st)"
    by (intro SetDataICAOLocation_exists [where r = "Inr (RInt 1)"]) (simp_all add: redisDo_EXISTS)
next
  assume "\<not> keyExists st (DbRedisICAOPrefixLocation @ Location data)"
  then show "SetDataICAOLocation (redisDo F) data st =
        (None, st\<lparr>hashes := (hashes st)
                  (DbRedisICAOPrefixLocation @ Location data := locationFields F data)\<rparr>)"
    by (simp add: SetDataICAOLocation_def redisDo_EXISTS redisDo_HSET_new)
qed

lemma keyExists_sampleStore:
  "keyExists sampleStore (DbRedisICAOPrefixLocation @ Location sampleLocation)"
  "\<not> keyExists emptyStore (DbRedisICAOPrefixLocation @ Location sampleLocation)"
  by (simp_all add: keyExists_def sampleStore_def emptyStore_def sampleHash_def sampleLocation_def
      DbRedisICAOPrefixLocation_def zeroLocation_def)

theorem SetDataICAOLocation_create_if_absent_witness:
  "SetDataICAOLocation (redisDo sampleFormatFloat) sampleLocation sampleStore = (None, sampleStore) \<and>
   SetDataICAOLocation (redisDo sampleFormatFloat) sampleLocation emptyStore =
     (None, emptyStore\<lparr>hashes := (hashes emptyStore)
        (DbRedisICAOPrefixLocation @ Location sampleLocation :=
           locationFields sampleFormatFloat sampleLocation)\<rparr>)"
  using keyExists_sampleStore
    SetDataICAOLocation_create_if_absent [of sampleStore sampleLocation sampleFormatFloat]
    SetDataICAOLocation_create_if_absent [of emptyStore sampleLocation sampleFormatFloat]
  by blast

section \<open>Properties of the batch handler\<close>

lemma find_invalid_None:
  "list_all ValidateICAOLocation ls \<Longrightarrow> find (\<lambda>l. \<not> ValidateICAOLocation l) ls = None"
  by (induction ls) auto

text \<open>
  C9. A batch of more than 16 codes is answered with status 403 and the state of the
  database connection is the one before the request, on every connection: no command
  is issued. A batch of at most 16 codes, all valid, is passed to \<open>queryDatabase\<close> and
  answered with the JSON of its result (status 500 when the query or the encoding
  fails).
\<close>

theorem serveMultipleLocations_limit:
  "(16 < length (Locations qparam) \<longrightarrow>
      serveMultipleLocations Do ParseFloat MarshalIndent endpoint qparam st =
        (Response 403 ''location specified while maximum is allowed'', st)) \<and>
   (length (Locations qparam) \<le> 16 \<and> list_all ValidateICAOLocation (Locations qparam) \<longrightarrow>
      serveMultipleLocations Do ParseFloat MarshalIndent endpoint qparam st =
        (case queryDatabase Do ParseFloat endpoint (Locations qparam) st of
           (Err err, st') \<Rightarrow> (Response 500 ''Error retreiving data for locations'', st')
         | (Panic, st') \<Rightarrow> (HandlerPanic, st')
         | (Ok ld, st') \<Rightarrow> (writeJSON MarshalIndent (JArray ld), st')))"
  by (simp add: serveMultipleLocations_def maxLocations_def StatusForbidden_def
      StatusInternalServerError_def find_invalid_None split: prod.splits result.splits)

lemma codes16_valid: "list_all ValidateICAOLocation codes16" "length codes16 = 16"
  by (simp_all add: codes16_def ValidateICAOLocation_def upperOrDigit_def byte_def)

lemma redisDo_MGET:
  "args \<noteq> [] \<Longrightarrow> redisDo F ''MGET'' args st =
     (Inr (RArray (map (\<lambda>k. case strs st (argStr F k) of None \<Rightarrow> RNil | Some (v, ttl) \<Rightarrow> RBulk v) args)), st)"
  by (cases args) (simp_all add: redisDo_def)

lemma sample_query16:
  "queryDatabase (redisDo sampleFormatFloat) sampleParseFloat ''metar'' codes16 metarStore =
     (Ok [zeroLocation\<lparr>Location := ''UKLL'', Metar := ''METAR UKLL 010600Z''\<rparr>], metarStore)"
  by (simp add: queryDatabase_def endpointMetar_def GetMETARs_def getMetarStrs_def redisDo_MGET
      codes16_def metarStore_def emptyStore_def argStr_def DbRedisICAOPrefixMetar_def)

theorem serveMultipleLocations_limit_witness:
  "serveMultipleLocations recordDo sampleParseFloat sampleMarshal ''metar''
     \<lparr>Locations = ''EHAM'' # codes16\<rparr> [] =
     (Response 403 ''location specified while maximum is allowed'', []) \<and>
   serveMultipleLocations (redisDo sampleFormatFloat) sampleParseFloat sampleMarshal ''metar''
     \<lparr>Locations = codes16\<rparr> metarStore =
     (Response 200 ''UKLL\<newline>'', metarStore)"
  using codes16_valid
    serveMultipleLocations_limit [of "\<lparr>Locations = ''EHAM'' # codes16\<rparr>" recordDo sampleParseFloat
      sampleMarshal "''metar''" "[]"]
    serveMultipleLocations_limit [of "\<lparr>Locations = codes16\<rparr>" "redisDo sampleFormatFloat"
      sampleParseFloat sampleMarshal "''metar''" metarStore]
  by (simp add: sample_query16 writeJSON_def sampleMarshal_def zeroLocation_def StatusOK_def)


end
